theory Spec2Isabelle
  imports Complex_Main "HOL-Library.AList"
begin

section \<open>Numbers and errors\<close>

text \<open>
  The simulator computes with Python numbers: quantities are \<^verbatim>\<open>int\<close> (drawn by
  \<^verbatim>\<open>random.randint\<close>) or \<^verbatim>\<open>float\<close>, rates are \<^verbatim>\<open>float\<close>, capacities are
  \<^verbatim>\<open>int\<close> in the default configuration. The embedding takes all of them as exact
  rationals, so \<^verbatim>\<open>/\<close> is exact division, \<^verbatim>\<open>int(x)\<close> truncates towards zero,
  \<^verbatim>\<open>a % b\<close> is the remainder with the sign of the divisor and \<^verbatim>\<open>round(x, 2)\<close>
  rounds to the nearest hundredth, ties to the even hundredth. The rounding error of
  IEEE doubles is outside this model.

  The exceptions the modelled methods can raise are values of type \<open>errore\<close>.
\<close>

datatype errore = KeyError string | ZeroDivisionError | ValueError

definition py_truediv :: "rat \<Rightarrow> rat \<Rightarrow> errore + rat" where
  "py_truediv a b = (if b = 0 then Inl ZeroDivisionError else Inr (a / b))"

definition py_int :: "rat \<Rightarrow> int" where
  "py_int x = (if 0 \<le> x then \<lfloor>x\<rfloor> else \<lceil>x\<rceil>)"

text \<open>\<^verbatim>\<open>a % b\<close> for \<open>b \<noteq> 0\<close>; the only use comes after \<^verbatim>\<open>a / b\<close> has succeeded.\<close>

definition py_mod :: "rat \<Rightarrow> rat \<Rightarrow> rat" where
  "py_mod a b = a - of_int \<lfloor>a / b\<rfloor> * b"

definition round_half_even :: "rat \<Rightarrow> int" where
  "round_half_even y =
     (let f = \<lfloor>y\<rfloor>; d = y - of_int f
      in if d < 1 / 2 then f
         else if 1 / 2 < d then f + 1
         else if even f then f else f + 1)"

text \<open>\<^verbatim>\<open>round(x, 2)\<close>.\<close>

definition round2 :: "rat \<Rightarrow> rat" where
  "round2 x = of_int (round_half_even (x * 100)) / 100"


section \<open>The simulator's state\<close>

text \<open>
  One entry of \<^verbatim>\<open>self.prodotti\<close>, and the attributes of
  \<^verbatim>\<open>SimulatoreProduzioneZioPeppe\<close>. The dictionaries that the code iterates
  (\<^verbatim>\<open>sequenze\<close>, \<^verbatim>\<open>quantita_produzione\<close>) are association lists in insertion order,
  read with \<open>map_of\<close>; \<^verbatim>\<open>prodotti\<close> is only looked up by key and is a map.
  \<^verbatim>\<open>capacita_complessiva\<close> does not exist until it is configured.
  \<^verbatim>\<open>genera_quantita_casuali\<close> fills \<^verbatim>\<open>quantita_produzione\<close> with random integers; here
  the quantity table is an input.
\<close>

record info_prodotto =
  nome :: string
  tempo_per_kg :: rat
  capacita_giornaliera :: rat
  unita_misura :: string

record stato =
  prodotti :: "string \<rightharpoonup> info_prodotto"
  sequenze :: "(string \<times> string list) list"
  quantita_produzione :: "(string \<times> rat) list"
  capacita_complessiva :: "rat option"

text \<open>\<^verbatim>\<open>__init__\<close>.\<close>

definition init :: stato where
  "init =
     \<lparr>prodotti = map_of
        [(''carne_bovina'', \<lparr>nome = ''Carne Bovina'', tempo_per_kg = 15 / 100,
            capacita_giornaliera = 500, unita_misura = ''kg''\<rparr>),
         (''carne_suina'', \<lparr>nome = ''Carne Suina'', tempo_per_kg = 12 / 100,
            capacita_giornaliera = 400, unita_misura = ''kg''\<rparr>),
         (''salumi'', \<lparr>nome = ''Salumi'', tempo_per_kg = 25 / 100,
            capacita_giornaliera = 200, unita_misura = ''kg''\<rparr>),
         (''formaggi'', \<lparr>nome = ''Formaggi'', tempo_per_kg = 20 / 100,
            capacita_giornaliera = 150, unita_misura = ''kg''\<rparr>)],
      sequenze =
        [(''sequenza_macellazione'', [''carne_bovina'', ''carne_suina'']),
         (''sequenza_trasformazione'', [''salumi'', ''formaggi''])],
      quantita_produzione = [],
      capacita_complessiva = None\<rparr>"

section \<open>Configuration updates\<close>


definition configura_capacita_giornaliera :: "stato \<Rightarrow> string \<Rightarrow> rat \<Rightarrow> stato" where
  "configura_capacita_giornaliera st codice capacita =
     (case prodotti st codice of
        Some info \<Rightarrow>
          st\<lparr>prodotti := (prodotti st)(codice \<mapsto> info\<lparr>capacita_giornaliera := capacita\<rparr>)\<rparr>
      | None \<Rightarrow> st)"

definition configura_capacita_complessiva :: "stato \<Rightarrow> rat \<Rightarrow> stato" where
  "configura_capacita_complessiva st capacita_totale =
     st\<lparr>capacita_complessiva := Some capacita_totale\<rparr>"

section \<open>The estimator\<close>

text \<open>
  The dictionary returned by \<^verbatim>\<open>calcola_tempo_produzione\<close>. \<^verbatim>\<open>giorni_effettivi\<close>
  is a Python \<^verbatim>\<open>int\<close>, and so is \<^verbatim>\<open>round(giorni_effettivi * 8, 2)\<close>.
\<close>

record risultato =
  prodotto :: string
  quantita :: rat
  tempo_lavorazione_ore :: rat
  tempo_lavorazione_giorni :: rat
  giorni_effettivi :: int
  tempo_totale_ore :: int

text \<open>
  \<^verbatim>\<open>self.prodotti[prodotto]\<close> raises \<^verbatim>\<open>KeyError\<close> for an unknown key and
  \<^verbatim>\<open>quantita / capacita_giornaliera\<close> raises \<^verbatim>\<open>ZeroDivisionError\<close> for a zero
  capacity; once that first division has passed, the second one and the \<^verbatim>\<open>%\<close>
  cannot raise.
\<close>

definition calcola_tempo_produzione :: "stato \<Rightarrow> string \<Rightarrow> rat \<Rightarrow> errore + risultato" where
  "calcola_tempo_produzione st codice q =
     (case prodotti st codice of
        None \<Rightarrow> Inl (KeyError codice)
      | Some info_prodotto \<Rightarrow>
          let tempo_per_unita = tempo_per_kg info_prodotto;
              capacita = capacita_giornaliera info_prodotto
          in (case py_truediv q capacita of
                Inl e \<Rightarrow> Inl e
              | Inr giorni_necessari \<Rightarrow>
                  let tempo_lavorazione = q * tempo_per_unita;
                      giorni =
                        (if q > capacita
                         then py_int (q / capacita) + (if py_mod q capacita > 0 then 1 else 0)
                         else 1)
                  in Inr \<lparr>prodotto = nome info_prodotto,
                          quantita = q,
                          tempo_lavorazione_ore = round2 tempo_lavorazione,
                          tempo_lavorazione_giorni = round2 giorni_necessari,
                          giorni_effettivi = giorni,
                          tempo_totale_ore = giorni * 8\<rparr>))"

section \<open>The aggregator\<close>

text \<open>
  The report of one sequence and the facility report. The sequence report's
  \<^verbatim>\<open>tempo_totale_ore\<close> and the keys of \<^verbatim>\<open>totali_generali\<close> carry a suffix, since
  the estimate has a field of the same name. \<^verbatim>\<open>data_simulazione\<close> is the wall clock
  and is left out.
\<close>

record rapporto_sequenza =
  sequenza :: string
  dettagli_prodotti :: "risultato list"
  tempo_totale_ore_seq :: rat
  giorni_totali :: int
  ore_medie_giorno :: rat



text \<open>
  The \<^verbatim>\<open>for prodotto in self.sequenze[nome_sequenza]\<close> loop, on the triple
  \<^verbatim>\<open>(risultati, tempo_totale_ore, tempo_totale_giorni)\<close>. A product without a
  quantity is skipped; an exception of the estimator leaves the loop.
\<close>

fun ciclo_prodotti ::
  "stato \<Rightarrow> string list \<Rightarrow> risultato list \<times> rat \<times> int \<Rightarrow> errore + risultato list \<times> rat \<times> int"
where
  "ciclo_prodotti st [] acc = Inr acc"
| "ciclo_prodotti st (p # ps) (risultati, ore, giorni) =
     (case map_of (quantita_produzione st) p of
        None \<Rightarrow> ciclo_prodotti st ps (risultati, ore, giorni)
      | Some q \<Rightarrow>
          (case calcola_tempo_produzione st p q of
             Inl e \<Rightarrow> Inl e
           | Inr r \<Rightarrow>
               ciclo_prodotti st ps
                 (risultati @ [r], ore + tempo_lavorazione_ore r, max giorni (giorni_effettivi r))))"

text \<open>
  The method assigns no attribute; it returns its result together with the state it
  leaves, which is the state it was given.
\<close>

definition simula_sequenza_produttiva ::
  "stato \<Rightarrow> string \<Rightarrow> (errore + rapporto_sequenza option) \<times> stato"
where
  "simula_sequenza_produttiva st nome_sequenza =
     (case map_of (sequenze st) nome_sequenza of
        None \<Rightarrow> (Inr None, st)
      | Some ps \<Rightarrow>
          (case ciclo_prodotti st ps ([], 0, 0) of
             Inl e \<Rightarrow> (Inl e, st)
           | Inr (risultati, ore, giorni) \<Rightarrow>
               (case py_truediv ore (of_int (max giorni 1)) of
                  Inl e \<Rightarrow> (Inl e, st)
                | Inr media \<Rightarrow>
                    (Inr (Some \<lparr>sequenza = nome_sequenza,
                                dettagli_prodotti = risultati,
                                tempo_totale_ore_seq = round2 ore,
                                giorni_totali = giorni,
                                ore_medie_giorno = round2 media\<rparr>), st))))"




section \<open>Rounding and the day count\<close>

lemma round_half_even_of_int: "round_half_even (of_int n) = n"
  by (simp add: round_half_even_def)

lemma round_half_even_le:
  assumes "y \<le> of_int n"
  shows "round_half_even y \<le> n"
proof (cases "y = of_int \<lfloor>y\<rfloor>")
  case True
  then have "round_half_even y = \<lfloor>y\<rfloor>"
    by (simp add: round_half_even_def Let_def)
  moreover have "\<lfloor>y\<rfloor> \<le> n" using assms by (simp add: floor_le_iff) 
  ultimately show ?thesis by simp
next
  case False
  moreover have "of_int \<lfloor>y\<rfloor> \<le> y" by (rule of_int_floor_le)
  ultimately have "of_int \<lfloor>y\<rfloor> < y" by linarith
  then have "of_int \<lfloor>y\<rfloor> < (of_int n :: rat)" using assms by linarith
  then have "\<lfloor>y\<rfloor> + 1 \<le> n" by simp
  moreover have "round_half_even y \<le> \<lfloor>y\<rfloor> + 1"
    by (simp add: round_half_even_def Let_def)
  ultimately show ?thesis by linarith
qed

lemma round2_cent: "round2 (of_int k / 100) = of_int k / 100"
  by (simp add: round2_def round_half_even_of_int)

lemma round2_of_int: "round2 (of_int n) = of_int n"
  using round2_cent [of "n * 100"] by simp

lemma round2_le_of_int:
  assumes "x \<le> of_int n"
  shows "round2 x \<le> of_int n"
proof -
  have "x * 100 \<le> of_int (n * 100)" using assms by simp
  then have "round_half_even (x * 100) \<le> n * 100" by (rule round_half_even_le)
  then have "(of_int (round_half_even (x * 100)) :: rat) \<le> of_int (n * 100)"
    by (simp only: of_int_le_iff)
  then show ?thesis by (simp add: round2_def)
qed

lemma py_mod_pos_iff:
  assumes "0 < c"
  shows "0 < py_mod q c \<longleftrightarrow> q / c \<noteq> of_int \<lfloor>q / c\<rfloor>"
proof -
  have "py_mod q c = (q / c - of_int \<lfloor>q / c\<rfloor>) * c"
    using assms by (simp add: py_mod_def algebra_simps)
  moreover have "0 \<le> q / c - of_int \<lfloor>q / c\<rfloor>" by simp
  ultimately show ?thesis using assms
    by (auto simp: zero_less_mult_iff less_le)
qed

lemma giorni_ceiling:
  assumes "0 < c" "c < q"
  shows "py_int (q / c) + (if py_mod q c > 0 then 1 else 0) = \<lceil>q / c\<rceil>"
proof -
  have "0 \<le> q / c" using assms by simp
  then have "py_int (q / c) = \<lfloor>q / c\<rfloor>" by (simp add: py_int_def)
  then show ?thesis
    using py_mod_pos_iff [OF assms(1), of q] by (simp add: ceiling_altdef)
qed

lemma ceiling_ge_2:
  assumes "0 < c" "c < (q::rat)"
  shows "2 \<le> \<lceil>q / c\<rceil>"
proof -
  have "1 < q / c" using assms by simp
  then have "1 < \<lceil>q / c\<rceil>" by (simp add: less_ceiling_iff)
  then show ?thesis by simp
qed

section \<open>Properties of the estimator\<close>

lemma calcola_Some:
  assumes "prodotti st codice = Some info" "capacita_giornaliera info \<noteq> 0"
  shows "calcola_tempo_produzione st codice q =
     Inr \<lparr>prodotto = nome info, quantita = q,
          tempo_lavorazione_ore = round2 (q * tempo_per_kg info),
          tempo_lavorazione_giorni = round2 (q / capacita_giornaliera info),
          giorni_effettivi =
            (if q > capacita_giornaliera info
             then py_int (q / capacita_giornaliera info)
                  + (if py_mod q (capacita_giornaliera info) > 0 then 1 else 0)
             else 1),
          tempo_totale_ore =
            (if q > capacita_giornaliera info
             then py_int (q / capacita_giornaliera info)
                  + (if py_mod q (capacita_giornaliera info) > 0 then 1 else 0)
             else 1) * 8\<rparr>"
  using assms by (simp add: calcola_tempo_produzione_def py_truediv_def Let_def)

text \<open>
  Claim C5. For a product of the catalog with a positive daily capacity, the returned
  \<^verbatim>\<open>giorni_effettivi\<close> is never below the returned
  \<^verbatim>\<open>tempo_lavorazione_giorni\<close> (the ratio rounded to two decimals).
\<close>

theorem giorni_effettivi_ge_giorni:
  assumes "prodotti st codice = Some info" and "0 < capacita_giornaliera info"
  shows "\<exists>r. calcola_tempo_produzione st codice q = Inr r \<and>
           tempo_lavorazione_giorni r \<le> of_int (giorni_effettivi r)"
proof (cases "q \<le> capacita_giornaliera info")
  case True
  with assms have "q / capacita_giornaliera info \<le> of_int 1" by simp
  then have "round2 (q / capacita_giornaliera info) \<le> of_int 1" by (rule round2_le_of_int)
  with True assms show ?thesis by (simp add: calcola_Some)
next
  case False
  then have lt: "capacita_giornaliera info < q" by simp
  have "q / capacita_giornaliera info \<le> of_int \<lceil>q / capacita_giornaliera info\<rceil>"
    by (rule le_of_int_ceiling)
  then have "round2 (q / capacita_giornaliera info) \<le> of_int \<lceil>q / capacita_giornaliera info\<rceil>"
    by (rule round2_le_of_int)
  with lt assms show ?thesis
    by (simp add: calcola_Some giorni_ceiling del: ceiling_divide_eq_div)
qed

theorem giorni_effettivi_ge_giorni_witness:
  "prodotti init ''salumi'' =
     Some \<lparr>nome = ''Salumi'', tempo_per_kg = 25 / 100, capacita_giornaliera = 200,
           unita_misura = ''kg''\<rparr> \<and>
   calcola_tempo_produzione init ''salumi'' 334 =
     Inr \<lparr>prodotto = ''Salumi'', quantita = 334, tempo_lavorazione_ore = 835 / 10,
          tempo_lavorazione_giorni = 167 / 100, giorni_effettivi = 2, tempo_totale_ore = 16\<rparr> \<and>
   (\<exists>r. calcola_tempo_produzione init ''salumi'' 334 = Inr r \<and>
        tempo_lavorazione_giorni r \<le> of_int (giorni_effettivi r))"
proof -
  let ?info = "\<lparr>nome = ''Salumi'', tempo_per_kg = 25 / 100, capacita_giornaliera = 200,
           unita_misura = ''kg''\<rparr>"
  have h: "prodotti init ''salumi'' = Some ?info" by (simp add: init_def)
  have c: "0 < capacita_giornaliera ?info" by simp
  have v: "calcola_tempo_produzione init ''salumi'' 334 =
     Inr \<lparr>prodotto = ''Salumi'', quantita = 334, tempo_lavorazione_ore = 835 / 10,
          tempo_lavorazione_giorni = 167 / 100, giorni_effettivi = 2, tempo_totale_ore = 16\<rparr>"
    by code_simp
  show ?thesis
    using h v giorni_effettivi_ge_giorni [OF h c, of 334] by simp
qed




subsection \<open>Doubling the quantity\<close>




section \<open>The product loop\<close>

text \<open>Values that are a whole number of hundredths are fixed by \<^verbatim>\<open>round(x, 2)\<close>.\<close>

lemma cent_round2: "round2 x * 100 \<in> \<int>"
  by (simp add: round2_def)

lemma cent_add: "x * 100 \<in> \<int> \<Longrightarrow> y * 100 \<in> \<int> \<Longrightarrow> (x + y) * 100 \<in> \<int>"
  by (simp only: distrib_right Ints_add)

lemma round2_id:
  assumes "x * 100 \<in> \<int>"
  shows "round2 x = x"
proof -
  from assms obtain k :: int where "x * 100 = of_int k" by (auto elim: Ints_cases)
  then have "x = of_int k / 100" by simp
  then show ?thesis by (simp only: round2_cent)
qed

lemma cent_sum_list: "(\<forall>x\<in>set xs. x * 100 \<in> \<int>) \<Longrightarrow> sum_list xs * 100 \<in> \<int>"
proof (induction xs)
  case Nil
  show ?case by simp
next
  case (Cons a xs)
  then have "a * 100 \<in> \<int>" and "sum_list xs * 100 \<in> \<int>" by simp_all
  then have "(a + sum_list xs) * 100 \<in> \<int>" by (rule cent_add)
  then show ?case by simp
qed

lemma calcola_cent:
  "calcola_tempo_produzione st p q = Inr d \<Longrightarrow> tempo_lavorazione_ore d * 100 \<in> \<int>"
  by (auto simp: calcola_tempo_produzione_def Let_def cent_round2
      split: option.splits sum.splits)

lemma ciclo_Inr:
  "ciclo_prodotti st ps (ris, ore, giorni) = Inr (ris', ore', giorni') \<Longrightarrow>
   \<exists>ds. ris' = ris @ ds \<and>
        ore' = ore + sum_list (map tempo_lavorazione_ore ds) \<and>
        giorni' = fold max (map giorni_effettivi ds) giorni \<and>
        (\<forall>d\<in>set ds. \<exists>p q. p \<in> set ps \<and> map_of (quantita_produzione st) p = Some q \<and>
                        calcola_tempo_produzione st p q = Inr d)"
proof (induction ps arbitrary: ris ore giorni)
  case Nil
  then show ?case by simp
next
  case (Cons p ps)
  show ?case
  proof (cases "map_of (quantita_produzione st) p")
    case None
    with Cons.prems have "ciclo_prodotti st ps (ris, ore, giorni) = Inr (ris', ore', giorni')"
      by simp
    from Cons.IH [OF this] obtain ds where ds: "ris' = ris @ ds"
      "ore' = ore + sum_list (map tempo_lavorazione_ore ds)"
      "giorni' = fold max (map giorni_effettivi ds) giorni"
      "\<forall>d\<in>set ds. \<exists>p q. p \<in> set ps \<and> map_of (quantita_produzione st) p = Some q \<and>
                        calcola_tempo_produzione st p q = Inr d"
      by blast
    have "\<forall>d\<in>set ds. \<exists>p' q. p' \<in> set (p # ps) \<and>
        map_of (quantita_produzione st) p' = Some q \<and> calcola_tempo_produzione st p' q = Inr d"
      using ds(4) by (meson list.set_intros(2))
    with ds(1,2,3) show ?thesis by (intro exI [of _ ds] conjI)
  next
    case (Some q)
    show ?thesis
    proof (cases "calcola_tempo_produzione st p q")
      case (Inl e)
      with Some Cons.prems show ?thesis by simp
    next
      case (Inr r)
      with Some Cons.prems have rest: "ciclo_prodotti st ps
        (ris @ [r], ore + tempo_lavorazione_ore r, max giorni (giorni_effettivi r)) =
        Inr (ris', ore', giorni')"
        by simp
      from Cons.IH [OF rest] obtain ds where ds: "ris' = (ris @ [r]) @ ds"
        "ore' = ore + tempo_lavorazione_ore r + sum_list (map tempo_lavorazione_ore ds)"
        "giorni' = fold max (map giorni_effettivi ds) (max giorni (giorni_effettivi r))"
        "\<forall>d\<in>set ds. \<exists>p q. p \<in> set ps \<and> map_of (quantita_produzione st) p = Some q \<and>
                          calcola_tempo_produzione st p q = Inr d"
        by blast
      have f1: "ris' = ris @ (r # ds)" using ds(1) by simp
      have f2: "ore' = ore + sum_list (map tempo_lavorazione_ore (r # ds))"
        using ds(2) by simp
      have f3: "giorni' = fold max (map giorni_effettivi (r # ds)) giorni"
        using ds(3) by (simp add: max.commute)
      have "\<exists>p' q. p' \<in> set (p # ps) \<and>
          map_of (quantita_produzione st) p' = Some q \<and> calcola_tempo_produzione st p' q = Inr r"
        using Some Inr by (intro exI [of _ p] exI [of _ q]) simp
      moreover have "\<forall>d\<in>set ds. \<exists>p' q. p' \<in> set (p # ps) \<and>
          map_of (quantita_produzione st) p' = Some q \<and> calcola_tempo_produzione st p' q = Inr d"
        using ds(4) by (meson list.set_intros(2))
      ultimately have f4: "\<forall>d\<in>set (r # ds). \<exists>p' q. p' \<in> set (p # ps) \<and>
          map_of (quantita_produzione st) p' = Some q \<and> calcola_tempo_produzione st p' q = Inr d"
        by simp
      from f1 f2 f3 f4 show ?thesis by (intro exI [of _ "r # ds"] conjI)
    qed
  qed
qed

lemma ciclo_fail:
  "p \<in> set ps \<Longrightarrow> map_of (quantita_produzione st) p = Some q \<Longrightarrow>
   calcola_tempo_produzione st p q = Inl e \<Longrightarrow> \<exists>e'. ciclo_prodotti st ps acc = Inl e'"
proof (induction ps arbitrary: acc)
  case Nil
  then show ?case by simp
next
  case (Cons a ps)
  obtain ris ore giorni where acc: "acc = (ris, ore, giorni)" by (rule prod_cases3)
  show ?case
  proof (cases "map_of (quantita_produzione st) a")
    case None
    with Cons.prems have "p \<in> set ps" by auto
    from Cons.IH [OF this Cons.prems(2,3), of "(ris, ore, giorni)"] None
    show ?thesis by (simp add: acc)
  next
    case (Some qa)
    show ?thesis
    proof (cases "calcola_tempo_produzione st a qa")
      case (Inl e1)
      with Some show ?thesis by (simp add: acc)
    next
      case (Inr r)
      with Some Cons.prems have "p \<in> set ps" by auto
      from Cons.IH [OF this Cons.prems(2,3),
          of "(ris @ [r], ore + tempo_lavorazione_ore r, max giorni (giorni_effettivi r))"]
        Some Inr
      show ?thesis by (simp add: acc)
    qed
  qed
qed



section \<open>Properties of the sequence report\<close>

lemma py_truediv_max: "py_truediv ore (of_int (max giorni 1)) = Inr (ore / of_int (max giorni 1))"
proof -
  have "max giorni 1 \<noteq> 0" by simp
  then have "(of_int (max giorni 1) :: rat) \<noteq> 0" by (simp only: of_int_eq_0_iff not_False_eq_True)
  then show ?thesis by (simp add: py_truediv_def)
qed

lemma simula_ciclo:
  assumes "map_of (sequenze st) n = Some ps"
    and "ciclo_prodotti st ps ([], 0, 0) = Inr (ds, ore, giorni)"
  shows "simula_sequenza_produttiva st n =
     (Inr (Some \<lparr>sequenza = n, dettagli_prodotti = ds, tempo_totale_ore_seq = round2 ore,
                 giorni_totali = giorni,
                 ore_medie_giorno = round2 (ore / of_int (max giorni 1))\<rparr>), st)"
  using assms by (simp add: simula_sequenza_produttiva_def py_truediv_max)

lemma simula_fail:
  assumes "map_of (sequenze st) n = Some ps"
    and "ciclo_prodotti st ps ([], 0, 0) = Inl e"
  shows "simula_sequenza_produttiva st n = (Inl e, st)"
  using assms by (simp add: simula_sequenza_produttiva_def)

lemma simula_Inr_Some:
  assumes "fst (simula_sequenza_produttiva st n) = Inr (Some r)"
  shows "\<exists>ps ore. map_of (sequenze st) n = Some ps \<and>
           ciclo_prodotti st ps ([], 0, 0) = Inr (dettagli_prodotti r, ore, giorni_totali r) \<and>
           sequenza r = n \<and> tempo_totale_ore_seq r = round2 ore \<and>
           ore_medie_giorno r = round2 (ore / of_int (max (giorni_totali r) 1))"
proof (cases "map_of (sequenze st) n")
  case None
  with assms show ?thesis by (simp add: simula_sequenza_produttiva_def)
next
  case (Some ps)
  show ?thesis
  proof (cases "ciclo_prodotti st ps ([], 0, 0)")
    case (Inl e)
    with Some assms show ?thesis by (simp add: simula_fail)
  next
    case (Inr acc)
    obtain ds ore giorni where acc: "acc = (ds, ore, giorni)" by (rule prod_cases3)
    from Some Inr assms have "r = \<lparr>sequenza = n, dettagli_prodotti = ds,
        tempo_totale_ore_seq = round2 ore, giorni_totali = giorni,
        ore_medie_giorno = round2 (ore / of_int (max giorni 1))\<rparr>"
      by (simp add: acc simula_ciclo)
    with Some Inr acc show ?thesis by simp
  qed
qed

lemma simula_totals:
  assumes "fst (simula_sequenza_produttiva st n) = Inr (Some r)"
  shows "tempo_totale_ore_seq r = sum_list (map tempo_lavorazione_ore (dettagli_prodotti r))"
    and "giorni_totali r = fold max (map giorni_effettivi (dettagli_prodotti r)) 0"
    and "ore_medie_giorno r =
           round2 (tempo_totale_ore_seq r / of_int (max (giorni_totali r) 1))"
    and "\<exists>ps. map_of (sequenze st) n = Some ps \<and>
           (\<forall>d\<in>set (dettagli_prodotti r). \<exists>p q. p \<in> set ps \<and>
              map_of (quantita_produzione st) p = Some q \<and>
              calcola_tempo_produzione st p q = Inr d)"
proof -
  from simula_Inr_Some [OF assms] obtain ps ore where
    ps: "map_of (sequenze st) n = Some ps"
    and c: "ciclo_prodotti st ps ([], 0, 0) = Inr (dettagli_prodotti r, ore, giorni_totali r)"
    and t: "tempo_totale_ore_seq r = round2 ore"
    and m: "ore_medie_giorno r = round2 (ore / of_int (max (giorni_totali r) 1))"
    by blast
  from ciclo_Inr [OF c] obtain ds where ds: "dettagli_prodotti r = [] @ ds"
    "ore = 0 + sum_list (map tempo_lavorazione_ore ds)"
    "giorni_totali r = fold max (map giorni_effettivi ds) 0"
    "\<forall>d\<in>set ds. \<exists>p q. p \<in> set ps \<and> map_of (quantita_produzione st) p = Some q \<and>
        calcola_tempo_produzione st p q = Inr d"
    by blast
  have eq: "ds = dettagli_prodotti r" using ds(1) by simp
  have "\<forall>x\<in>set (map tempo_lavorazione_ore ds). x * 100 \<in> \<int>"
    using ds(4) calcola_cent by fastforce
  then have "sum_list (map tempo_lavorazione_ore ds) * 100 \<in> \<int>" by (rule cent_sum_list)
  then have "ore * 100 \<in> \<int>" using ds(2) by simp
  then have ro: "round2 ore = ore" by (rule round2_id)
  show "tempo_totale_ore_seq r = sum_list (map tempo_lavorazione_ore (dettagli_prodotti r))"
    using t ro ds(2) eq by simp
  show "giorni_totali r = fold max (map giorni_effettivi (dettagli_prodotti r)) 0"
    using ds(3) eq by simp
  show "ore_medie_giorno r =
           round2 (tempo_totale_ore_seq r / of_int (max (giorni_totali r) 1))"
    using m t ro by simp
  show "\<exists>ps. map_of (sequenze st) n = Some ps \<and>
           (\<forall>d\<in>set (dettagli_prodotti r). \<exists>p q. p \<in> set ps \<and>
              map_of (quantita_produzione st) p = Some q \<and>
              calcola_tempo_produzione st p q = Inr d)"
    using ps ds(4) eq by blast
qed

subsection \<open>Total days\<close>

lemma calcola_giorni_pos:
  assumes "calcola_tempo_produzione st p q = Inr d"
    and "\<forall>k info. prodotti st k = Some info \<longrightarrow> 0 < capacita_giornaliera info"
  shows "1 \<le> giorni_effettivi d"
proof -
  from assms(1) obtain info where info: "prodotti st p = Some info"
    by (auto simp: calcola_tempo_produzione_def split: option.splits)
  with assms(2) have pos: "0 < capacita_giornaliera info" by blast
  then have nz: "capacita_giornaliera info \<noteq> 0" by simp
  show ?thesis
  proof (cases "capacita_giornaliera info < q")
    case True
    from giorni_ceiling [OF pos True] ceiling_ge_2 [OF pos True]
    have "2 \<le> py_int (q / capacita_giornaliera info)
        + (if py_mod q (capacita_giornaliera info) > 0 then 1 else 0)"
      by (simp only:)
    with True assms(1) show ?thesis
      unfolding calcola_Some [OF info nz] by auto
  next
    case False
    with assms(1) show ?thesis
      unfolding calcola_Some [OF info nz] by auto
  qed
qed

lemma fold_max_Max:
  assumes "xs \<noteq> []" and "\<forall>x\<in>set xs. (0::int) \<le> x"
  shows "fold max xs 0 = Max (set xs)"
proof -
  have "fold max xs 0 = Max (set (0 # xs))" by (simp only: Max.set_eq_fold)
  also have "\<dots> = max 0 (Max (set xs))" using assms(1) by simp
  also have "\<dots> = Max (set xs)"
  proof -
    from assms(1) obtain x where "x \<in> set xs" by (cases xs) auto
    with assms(2) have "0 \<le> x" and "x \<le> Max (set xs)" by simp_all
    then show ?thesis by simp
  qed
  finally show ?thesis .
qed

text \<open>
  Claim C2, as stated, fails in its last part: with no resolvable member the loop leaves
  \<^verbatim>\<open>tempo_totale_giorni\<close> at its initial value 0, and the report carries 0, not 1.
  The freshly constructed simulator has no quantities at all.
\<close>

theorem giorni_totali_empty_is_zero:
  "fst (simula_sequenza_produttiva init ''sequenza_macellazione'') =
     Inr (Some \<lparr>sequenza = ''sequenza_macellazione'', dettagli_prodotti = [],
                 tempo_totale_ore_seq = 0, giorni_totali = 0, ore_medie_giorno = 0\<rparr>) \<and>
   giorni_totali \<lparr>sequenza = ''sequenza_macellazione'', dettagli_prodotti = [],
                 tempo_totale_ore_seq = 0, giorni_totali = 0, ore_medie_giorno = 0\<rparr> \<noteq> 1"
  by code_simp

text \<open>
  Claim C2, amended. The report's \<^verbatim>\<open>giorni_totali\<close> is the maximum of 0 and the
  members' \<^verbatim>\<open>giorni_effettivi\<close>. When every product of the catalog has a positive
  daily capacity and at least one member was resolved, it is the maximum of the members'
  \<^verbatim>\<open>giorni_effettivi\<close>; when no member was resolved it is 0.
\<close>

theorem giorni_totali_is_max:
  assumes "fst (simula_sequenza_produttiva st n) = Inr (Some r)"
  shows "giorni_totali r = Max (insert 0 (set (map giorni_effettivi (dettagli_prodotti r)))) \<and>
         ((\<forall>k info. prodotti st k = Some info \<longrightarrow> 0 < capacita_giornaliera info) \<and>
          dettagli_prodotti r \<noteq> [] \<longrightarrow>
            giorni_totali r = Max (set (map giorni_effettivi (dettagli_prodotti r)))) \<and>
         (dettagli_prodotti r = [] \<longrightarrow> giorni_totali r = 0)"
proof (intro conjI impI)
  let ?xs = "map giorni_effettivi (dettagli_prodotti r)"
  have "fold max ?xs 0 = Max (set (0 # ?xs))" by (simp only: Max.set_eq_fold)
  with simula_totals(2) [OF assms]
  show "giorni_totali r = Max (insert 0 (set ?xs))" by simp
next
  assume "dettagli_prodotti r = []"
  with simula_totals(2) [OF assms] show "giorni_totali r = 0" by simp
next
  assume a: "(\<forall>k info. prodotti st k = Some info \<longrightarrow> 0 < capacita_giornaliera info) \<and>
      dettagli_prodotti r \<noteq> []"
  then have pos: "\<forall>k info. prodotti st k = Some info \<longrightarrow> 0 < capacita_giornaliera info"
    and ne: "dettagli_prodotti r \<noteq> []" by simp_all
  from simula_totals(4) [OF assms] pos
  have "\<forall>d\<in>set (dettagli_prodotti r). 1 \<le> giorni_effettivi d"
    by (meson calcola_giorni_pos)
  then have "\<forall>x\<in>set (map giorni_effettivi (dettagli_prodotti r)). 0 \<le> x" by auto
  moreover from ne have "map giorni_effettivi (dettagli_prodotti r) \<noteq> []" by simp
  ultimately have "fold max (map giorni_effettivi (dettagli_prodotti r)) 0 =
      Max (set (map giorni_effettivi (dettagli_prodotti r)))"
    by (intro fold_max_Max)
  with simula_totals(2) [OF assms]
  show "giorni_totali r = Max (set (map giorni_effettivi (dettagli_prodotti r)))" by simp
qed

theorem giorni_totali_is_max_witness:
  "fst (simula_sequenza_produttiva
      (init\<lparr>quantita_produzione := [(''salumi'', 450), (''formaggi'', 299)]\<rparr>)
      ''sequenza_trasformazione'') =
   Inr (Some \<lparr>sequenza = ''sequenza_trasformazione'',
     dettagli_prodotti =
       [\<lparr>prodotto = ''Salumi'', quantita = 450, tempo_lavorazione_ore = 1125 / 10,
          tempo_lavorazione_giorni = 225 / 100, giorni_effettivi = 3, tempo_totale_ore = 24\<rparr>,
        \<lparr>prodotto = ''Formaggi'', quantita = 299, tempo_lavorazione_ore = 598 / 10,
          tempo_lavorazione_giorni = 199 / 100, giorni_effettivi = 2, tempo_totale_ore = 16\<rparr>],
     tempo_totale_ore_seq = 1723 / 10, giorni_totali = 3, ore_medie_giorno = 5743 / 100\<rparr>) \<and>
   (3::int) = Max (set [3, 2]) \<and> (3::int) \<noteq> 3 + 2"
proof -
  let ?st = "init\<lparr>quantita_produzione := [(''salumi'', 450), (''formaggi'', 299)]\<rparr>"
  let ?r = "\<lparr>sequenza = ''sequenza_trasformazione'',
     dettagli_prodotti =
       [\<lparr>prodotto = ''Salumi'', quantita = 450, tempo_lavorazione_ore = 1125 / 10,
          tempo_lavorazione_giorni = 225 / 100, giorni_effettivi = 3, tempo_totale_ore = 24\<rparr>,
        \<lparr>prodotto = ''Formaggi'', quantita = 299, tempo_lavorazione_ore = 598 / 10,
          tempo_lavorazione_giorni = 199 / 100, giorni_effettivi = 2, tempo_totale_ore = 16\<rparr>],
     tempo_totale_ore_seq = 1723 / 10, giorni_totali = 3, ore_medie_giorno = 5743 / 100\<rparr>"
  have h: "fst (simula_sequenza_produttiva ?st ''sequenza_trasformazione'') = Inr (Some ?r)"
    by code_simp
  have p: "\<forall>k info. prodotti ?st k = Some info \<longrightarrow> 0 < capacita_giornaliera info"
    by (auto simp: init_def split: if_splits)
  show ?thesis using h p giorni_totali_is_max [OF h] by simp
qed

subsection \<open>Exceptions of the estimator\<close>

text \<open>
  Claim C4, as stated, fails: no exception is caught anywhere in the class. An unknown
  product key that has a quantity, or a capacity configured to zero, raises out of
  \<^verbatim>\<open>calcola_tempo_produzione\<close> and out of the whole pass; the sibling
  \<^verbatim>\<open>carne_bovina\<close> is not reported.
\<close>

theorem errore_aborts_pass:
  "fst (simula_sequenza_produttiva
      (init\<lparr>sequenze := [(''sequenza_macellazione'', [''carne_bovina'', ''pollame''])],
            quantita_produzione := [(''carne_bovina'', 100), (''pollame'', 80)]\<rparr>)
      ''sequenza_macellazione'') = Inl (KeyError ''pollame'') \<and>
   fst (simula_sequenza_produttiva
      ((configura_capacita_giornaliera init ''carne_suina'' 0)
         \<lparr>quantita_produzione := [(''carne_bovina'', 100), (''carne_suina'', 80)]\<rparr>)
      ''sequenza_macellazione'') = Inl ZeroDivisionError"
  by code_simp

text \<open>
  Claim C4, amended. If the estimate of any member of the sequence that has a quantity
  raises (unknown product key, zero capacity), the whole aggregation pass raises: no
  report is returned, and the state is as it was.
\<close>

theorem errore_propagates:
  assumes "map_of (sequenze st) n = Some ps"
    and "p \<in> set ps"
    and "map_of (quantita_produzione st) p = Some q"
    and "calcola_tempo_produzione st p q = Inl e"
  shows "\<exists>e'. simula_sequenza_produttiva st n = (Inl e', st)"
proof -
  from ciclo_fail [OF assms(2,3,4)] obtain e' where
    "ciclo_prodotti st ps ([], 0, 0) = Inl e'" by blast
  with assms(1) have "simula_sequenza_produttiva st n = (Inl e', st)" by (rule simula_fail)
  then show ?thesis ..
qed

theorem errore_propagates_witness:
  "map_of (sequenze
      (init\<lparr>sequenze := [(''sequenza_macellazione'', [''carne_bovina'', ''pollame''])],
            quantita_produzione := [(''carne_bovina'', 100), (''pollame'', 80)]\<rparr>))
      ''sequenza_macellazione'' = Some [''carne_bovina'', ''pollame''] \<and>
   ''pollame'' \<in> set [''carne_bovina'', ''pollame''] \<and>
   map_of (quantita_produzione
      (init\<lparr>sequenze := [(''sequenza_macellazione'', [''carne_bovina'', ''pollame''])],
            quantita_produzione := [(''carne_bovina'', 100), (''pollame'', 80)]\<rparr>))
      ''pollame'' = Some 80 \<and>
   calcola_tempo_produzione
      (init\<lparr>sequenze := [(''sequenza_macellazione'', [''carne_bovina'', ''pollame''])],
            quantita_produzione := [(''carne_bovina'', 100), (''pollame'', 80)]\<rparr>)
      ''pollame'' 80 = Inl (KeyError ''pollame'') \<and>
   (\<exists>e'. simula_sequenza_produttiva
      (init\<lparr>sequenze := [(''sequenza_macellazione'', [''carne_bovina'', ''pollame''])],
            quantita_produzione := [(''carne_bovina'', 100), (''pollame'', 80)]\<rparr>)
      ''sequenza_macellazione'' =
      (Inl e', init\<lparr>sequenze := [(''sequenza_macellazione'', [''carne_bovina'', ''pollame''])],
            quantita_produzione := [(''carne_bovina'', 100), (''pollame'', 80)]\<rparr>))"
proof -
  let ?st = "init\<lparr>sequenze := [(''sequenza_macellazione'', [''carne_bovina'', ''pollame''])],
            quantita_produzione := [(''carne_bovina'', 100), (''pollame'', 80)]\<rparr>"
  have h1: "map_of (sequenze ?st) ''sequenza_macellazione'' = Some [''carne_bovina'', ''pollame'']"
    by simp
  have h2: "''pollame'' \<in> set [''carne_bovina'', ''pollame'']" by simp
  have h3: "map_of (quantita_produzione ?st) ''pollame'' = Some 80" by simp
  have h4: "calcola_tempo_produzione ?st ''pollame'' 80 = Inl (KeyError ''pollame'')"
    by code_simp
  show ?thesis using h1 h2 h3 h4 errore_propagates [OF h1 h2 h3 h4] by simp
qed

subsection \<open>Unknown sequence names\<close>

text \<open>
  Claim C10. For a name that is not a key of \<^verbatim>\<open>self.sequenze\<close> the method returns
  \<^verbatim>\<open>None\<close>, raises nothing, and leaves the whole state (catalog, sequences,
  quantities) as it was.
\<close>

theorem sequenza_sconosciuta:
  assumes "map_of (sequenze st) n = None"
  shows "simula_sequenza_produttiva st n = (Inr None, st)"
  using assms by (simp add: simula_sequenza_produttiva_def)

theorem sequenza_sconosciuta_witness:
  "map_of (sequenze init) ''sequenza_stagionatura'' = None \<and>
   simula_sequenza_produttiva init ''sequenza_stagionatura'' = (Inr None, init)"
proof -
  have h: "map_of (sequenze init) ''sequenza_stagionatura'' = None" by (simp add: init_def)
  show ?thesis using h sequenza_sconosciuta [OF h] by simp
qed

subsection \<open>Frame of the configuration updates\<close>



section \<open>Skipped members\<close>









section \<open>The averages\<close>








end
